theory Spec2Isabelle
  imports Complex_Main "HOL-Library.State_Monad"
begin

section \<open>The rendering library, as far as the examples use it\<close>

text \<open>
  The three example classes of \<^verbatim>\<open>threejs-epita/src\<close> are glue code over a retained
  scene graph library.  The library is modelled by an object store: every scene-graph
  object lives in a list and is named by its index, so that an object which is held in a
  field of an example and at the same time linked into the scene is one object, as in the
  source.  JavaScript numbers are taken as exact reals.  Fields that no statement below
  reads (colours, positions, scales, shadow-camera settings, orbit controls) are left out.
\<close>

type_synonym ref = nat
type_synonym number = real

text \<open>
  Disposable resources.  \<open>Geometry\<close> and \<open>Material\<close> handles are the ones the example
  code creates with \<^verbatim>\<open>new\<close>; \<open>AssetGeometry\<close> and \<open>AssetMaterial\<close> are the ones a loader
  creates while decoding a file.
\<close>

datatype resource = Geometry nat | Material nat | AssetGeometry nat | AssetMaterial nat

datatype kind = SceneK | CameraK | MeshK | LineSegmentsK | LightK | GroupK

record Object3D =
  kind :: kind
  parent :: "ref option"
  children :: "ref list"
  geometry :: "resource option"
  material :: "resource list"
  rotZ :: number
  castShadow :: bool

definition new_Object3D :: "kind \<Rightarrow> resource option \<Rightarrow> resource list \<Rightarrow> Object3D" where
  "new_Object3D k g m =
     \<lparr>kind = k, parent = None, children = [], geometry = g, material = m,
      rotZ = 0, castShadow = False\<rparr>"

definition isMesh :: "Object3D \<Rightarrow> bool" where
  "isMesh obj = (kind obj = MeshK)"

definition modify :: "ref \<Rightarrow> (Object3D \<Rightarrow> Object3D) \<Rightarrow> Object3D list \<Rightarrow> Object3D list" where
  "modify r f h = (if r < length h then h[r := f (h ! r)] else h)"

definition children_of :: "Object3D list \<Rightarrow> ref \<Rightarrow> ref list" where
  "children_of h r = (if r < length h then children (h ! r) else [])"

definition parent_of :: "Object3D list \<Rightarrow> ref \<Rightarrow> ref option" where
  "parent_of h r = (if r < length h then parent (h ! r) else None)"

text \<open>\<^verbatim>\<open>Object3D.remove\<close>: unlink the child if it is one.\<close>

definition Object3D_remove :: "ref \<Rightarrow> ref \<Rightarrow> Object3D list \<Rightarrow> Object3D list" where
  "Object3D_remove p c h =
     (if c \<in> set (children_of h p)
      then modify p (\<lambda>obj. obj\<lparr>children := remove1 c (children obj)\<rparr>)
             (modify c (\<lambda>obj. obj\<lparr>parent := None\<rparr>) h)
      else h)"

text \<open>
  \<^verbatim>\<open>Object3D.add\<close>: adding an object to itself is refused; an object that has a parent
  is first removed from it; then it is pushed at the end of the children.
\<close>

definition Object3D_add :: "ref \<Rightarrow> ref \<Rightarrow> Object3D list \<Rightarrow> Object3D list" where
  "Object3D_add p c h =
     (if c = p then h
      else
        modify p (\<lambda>obj. obj\<lparr>children := children obj @ [c]\<rparr>)
          (modify c (\<lambda>obj. obj\<lparr>parent := Some p\<rparr>)
             (case parent_of h c of None \<Rightarrow> h | Some q \<Rightarrow> Object3D_remove q c h)))"

text \<open>\<^verbatim>\<open>Object3D.clear\<close>: every child loses its parent, the child list becomes empty.\<close>

definition Object3D_clear :: "ref \<Rightarrow> Object3D list \<Rightarrow> Object3D list" where
  "Object3D_clear p h =
     modify p (\<lambda>obj. obj\<lparr>children := []\<rparr>)
       (fold (\<lambda>c. modify c (\<lambda>obj. obj\<lparr>parent := None\<rparr>)) (children_of h p) h)"

text \<open>
  \<^verbatim>\<open>Object3D.rotateZ\<close> composes a rotation about the local z axis; rotations about one
  axis compose by adding their angles, so the object keeps the sum of the angles.
\<close>

definition Object3D_rotateZ :: "number \<Rightarrow> Object3D \<Rightarrow> Object3D" where
  "Object3D_rotateZ angle obj = obj\<lparr>rotZ := rotZ obj + angle\<rparr>"

text \<open>
  \<^verbatim>\<open>Object3D.traverse\<close> visits the object, then its children in order, recursively.
  The visiting order is computed with a recursion depth bound; \<open>None\<close> is a recursion that
  does not end within the bound (a cyclic graph overflows the stack in the source).
\<close>

fun traverse :: "nat \<Rightarrow> Object3D list \<Rightarrow> ref \<Rightarrow> ref list option" where
  "traverse 0 h r = None"
| "traverse (Suc n) h r =
     (case those (map (traverse n h) (children_of h r)) of
        None \<Rightarrow> None
      | Some rss \<Rightarrow> Some (r # concat rss))"

text \<open>
  What a loader hands to its completion callback: a freshly built subgraph.  Nothing else
  refers to it yet, so it is a tree value until it is linked into the store; \<^verbatim>\<open>traverse\<close>
  on it is the structural recursion.
\<close>

datatype asset = Asset Object3D "asset list"

fun asset_traverse :: "(Object3D \<Rightarrow> Object3D) \<Rightarrow> asset \<Rightarrow> asset" where
  "asset_traverse f (Asset obj cs) = Asset (f obj) (map (asset_traverse f) cs)"

text \<open>
  Linking a loaded subgraph into the store: the root first, then every child subtree,
  each added to its parent in order.  The result is the reference of the root.
\<close>

fun link_asset :: "asset \<Rightarrow> Object3D list \<Rightarrow> ref \<times> Object3D list" where
  "link_asset (Asset obj cs) h =
     (length h,
      fold (\<lambda>c h'. case link_asset c h' of (rc, h'') \<Rightarrow> Object3D_add (length h) rc h'')
        cs (h @ [obj\<lparr>parent := None, children := []\<rparr>]))"

text \<open>The renderer records which path submitted a frame.\<close>

datatype submission = DirectRender ref ref | ComposerRender

record WebGLRenderer =
  submissions :: "submission list"
  shadowMapEnabled :: bool
  surface :: "number \<times> number"

definition WebGLRenderer_render :: "ref \<Rightarrow> ref \<Rightarrow> WebGLRenderer \<Rightarrow> WebGLRenderer" where
  "WebGLRenderer_render sc cm r = r\<lparr>submissions := submissions r @ [DirectRender sc cm]\<rparr>"

text \<open>A JavaScript \<^verbatim>\<open>Set\<close>: insertion order, no duplicates.\<close>

definition Set_add :: "'a \<Rightarrow> 'a list \<Rightarrow> 'a list" where
  "Set_add x xs = (if x \<in> set xs then xs else xs @ [x])"



section \<open>The base class \<^verbatim>\<open>Example\<close>\<close>

text \<open>
  The state of an example: the object store and the resource bookkeeping of the library
  (\<open>created\<close> lists every geometry and material constructed so far, \<open>disposed\<close> logs every
  call of \<^verbatim>\<open>dispose()\<close>), and the fields \<^verbatim>\<open>_scene\<close>, \<^verbatim>\<open>_cam\<close>, \<^verbatim>\<open>_renderer\<close>, \<^verbatim>\<open>_gui\<close> of
  the class.  The debug panel is the list of the controllers registered, as
  (folder, name) pairs.
\<close>

record Example =
  heap :: "Object3D list"
  created :: "resource list"
  disposed :: "resource list"
  scene :: ref
  cam :: ref
  renderer :: WebGLRenderer
  gui :: "(string \<times> string) list"

text \<open>
  Modelled from the spec: the file \<^verbatim>\<open>example.ts\<close> that declares the base class
  \<^verbatim>\<open>Example\<close> is not among the sources.  The spec gives a session one rendering surface,
  one camera, one scene graph root and one debug panel.
\<close>

definition Example_constructor :: "WebGLRenderer \<Rightarrow> Example" where
  "Example_constructor r =
     \<lparr>heap = [new_Object3D SceneK None [], new_Object3D CameraK None []],
      created = [], disposed = [], scene = 0, cam = 1, renderer = r, gui = []\<rparr>"

text \<open>
  Modelled from the spec: \<^verbatim>\<open>Example.initialize\<close> is missing.  The spec lets each demo
  populate the scene root in its own \<^verbatim>\<open>initialize()\<close> and names no scene content or
  resource of the base class, so the base step changes nothing.
\<close>

definition Example_initialize :: "'a Example_scheme \<Rightarrow> 'a Example_scheme" where
  "Example_initialize s = s"

text \<open>
  Modelled from the spec: \<^verbatim>\<open>Example.destroy\<close> is missing.  The spec calls the texture
  demo's \<^verbatim>\<open>destroy()\<close>, whose whole body is the call of the base method, a no-op.
\<close>

definition Example_destroy :: "'a Example_scheme \<Rightarrow> 'a Example_scheme" where
  "Example_destroy s = s"

text \<open>
  Modelled from the spec: \<^verbatim>\<open>Example.render\<close> is missing.  The spec's default behaviour
  of \<^verbatim>\<open>render()\<close> is a direct camera render.
\<close>

definition Example_render :: "'a Example_scheme \<Rightarrow> 'a Example_scheme" where
  "Example_render s = s\<lparr>renderer := WebGLRenderer_render (scene s) (cam s) (renderer s)\<rparr>"

text \<open>
  Modelled from the spec: \<^verbatim>\<open>Example.resize\<close> is missing.  The spec's session default
  propagates the new surface size.
\<close>

definition Example_resize :: "number \<Rightarrow> number \<Rightarrow> 'a Example_scheme \<Rightarrow> 'a Example_scheme" where
  "Example_resize w h s = s\<lparr>renderer := (renderer s)\<lparr>surface := (w, h)\<rparr>\<rparr>"

text \<open>
  Operations of the library, lifted to the state of an example.  The constructors return
  the new handle; the others only change the state.  A method body is a sequence of such
  steps in the state monad, \<open>exec\<close> being a step without a result and \<open>run\<close> the state
  a whole body leaves.
\<close>

abbreviation exec :: "('s \<Rightarrow> 's) \<Rightarrow> ('s, unit) state" where
  "exec f \<equiv> State_Monad.update f"

definition run :: "('s, 'a) state \<Rightarrow> 's \<Rightarrow> 's" where
  "run m s = snd (run_state m s)"

definition new_Geometry :: "('a Example_scheme, resource) state" where
  "new_Geometry =
     State (\<lambda>s. (Geometry (length (created s)),
                  s\<lparr>created := created s @ [Geometry (length (created s))]\<rparr>))"

definition new_Material :: "('a Example_scheme, resource) state" where
  "new_Material =
     State (\<lambda>s. (Material (length (created s)),
                  s\<lparr>created := created s @ [Material (length (created s))]\<rparr>))"

definition new_Object ::
  "kind \<Rightarrow> resource option \<Rightarrow> resource list \<Rightarrow> ('a Example_scheme, ref) state"
where
  "new_Object k g m =
     State (\<lambda>s. (length (heap s), s\<lparr>heap := heap s @ [new_Object3D k g m]\<rparr>))"

definition link :: "asset \<Rightarrow> ('a Example_scheme, ref) state" where
  "link a =
     State (\<lambda>s. (fst (link_asset a (heap s)), s\<lparr>heap := snd (link_asset a (heap s))\<rparr>))"

definition dispose :: "resource \<Rightarrow> 'a Example_scheme \<Rightarrow> 'a Example_scheme" where
  "dispose x s = s\<lparr>disposed := disposed s @ [x]\<rparr>"

definition add :: "ref \<Rightarrow> ref \<Rightarrow> 'a Example_scheme \<Rightarrow> 'a Example_scheme" where
  "add p c s = s\<lparr>heap := Object3D_add p c (heap s)\<rparr>"

definition scene_add :: "ref \<Rightarrow> 'a Example_scheme \<Rightarrow> 'a Example_scheme" where
  "scene_add c s = add (scene s) c s"

definition scene_clear :: "'a Example_scheme \<Rightarrow> 'a Example_scheme" where
  "scene_clear s = s\<lparr>heap := Object3D_clear (scene s) (heap s)\<rparr>"

definition rotateZ :: "ref \<Rightarrow> number \<Rightarrow> 'a Example_scheme \<Rightarrow> 'a Example_scheme" where
  "rotateZ r angle s = s\<lparr>heap := modify r (Object3D_rotateZ angle) (heap s)\<rparr>"

definition render_direct :: "'a Example_scheme \<Rightarrow> 'a Example_scheme" where
  "render_direct s = s\<lparr>renderer := WebGLRenderer_render (scene s) (cam s) (renderer s)\<rparr>"

definition gui_add :: "string \<Rightarrow> string \<Rightarrow> 'a Example_scheme \<Rightarrow> 'a Example_scheme" where
  "gui_add folder name s = s\<lparr>gui := gui s @ [(folder, name)]\<rparr>"

definition scene_children :: "'a Example_scheme \<Rightarrow> ref list" where
  "scene_children s = children_of (heap s) (scene s)"

definition dispose_count :: "'a Example_scheme \<Rightarrow> resource \<Rightarrow> nat" where
  "dispose_count s x = count_list (disposed s) x"

datatype load_state = NotStarted | Pending | Completed | Failed

datatype error = TypeError | RangeError

definition renderer0 :: WebGLRenderer where
  "renderer0 = \<lparr>submissions = [], shadowMapEnabled = False, surface = (0, 0)\<rparr>"

text \<open>A frame loop: any interleaving of \<^verbatim>\<open>update\<close> and \<^verbatim>\<open>render\<close> calls.\<close>

datatype frame_call = Update number number | Render

fun is_update :: "frame_call \<Rightarrow> bool" where
  "is_update (Update _ _) = True"
| "is_update Render = False"

definition updates :: "frame_call list \<Rightarrow> nat" where
  "updates cs = length (filter is_update cs)"


section \<open>\<^verbatim>\<open>PlanetsExample\<close> (planet-example.ts)\<close>

record SystemVelocity =
  velocity :: number

record PlanetsExample = Example +
  earth :: "ref option"
  mars :: "ref option"
  sun :: "ref option"
  disposableMaterial :: "resource list"
  disposableGeometry :: "resource list"
  systemVelocity :: SystemVelocity
  earthVelocity :: SystemVelocity
  marsVelocity :: SystemVelocity

definition PlanetsExample_constructor :: "WebGLRenderer \<Rightarrow> PlanetsExample" where
  "PlanetsExample_constructor r =
     Example.extend (Example_constructor r)
       \<lparr>earth = None, mars = None, sun = None,
        disposableMaterial = [], disposableGeometry = [],
        systemVelocity = \<lparr>velocity = 0.0015\<rparr>,
        earthVelocity = \<lparr>velocity = 0.005\<rparr>,
        marsVelocity = \<lparr>velocity = 0.003\<rparr>\<rparr>"

definition disposableMaterial_add :: "resource \<Rightarrow> PlanetsExample \<Rightarrow> PlanetsExample" where
  "disposableMaterial_add x s = s\<lparr>disposableMaterial := Set_add x (disposableMaterial s)\<rparr>"

definition disposableGeometry_add :: "resource \<Rightarrow> PlanetsExample \<Rightarrow> PlanetsExample" where
  "disposableGeometry_add x s = s\<lparr>disposableGeometry := Set_add x (disposableGeometry s)\<rparr>"

definition PlanetsExample_initialize :: "PlanetsExample \<Rightarrow> PlanetsExample" where
  "PlanetsExample_initialize =
     run (do {
       exec Example_initialize;
       lineMaterial \<leftarrow> new_Material;
       exec (disposableMaterial_add lineMaterial);
       basicMaterial \<leftarrow> new_Material;
       exec (disposableMaterial_add basicMaterial);
       sunGeometry \<leftarrow> new_Geometry;
       exec (disposableGeometry_add sunGeometry);
       sunM \<leftarrow> new_Object MeshK (Some sunGeometry) [basicMaterial];
       exec (\<lambda>s. s\<lparr>sun := Some sunM\<rparr>);
       exec (scene_add sunM);
       light \<leftarrow> new_Object LightK None [];
       exec (add sunM light);
       earthMaterial \<leftarrow> new_Material;
       exec (disposableMaterial_add earthMaterial);
       earthGeom \<leftarrow> new_Geometry;
       exec (disposableGeometry_add earthGeom);
       earthM \<leftarrow> new_Object MeshK (Some earthGeom) [earthMaterial];
       exec (\<lambda>s. s\<lparr>earth := Some earthM\<rparr>);
       exec (add sunM earthM);
       circleGeom \<leftarrow> new_Geometry;
       exec (disposableGeometry_add circleGeom);
       orbitEdges \<leftarrow> new_Geometry;
       exec (disposableGeometry_add orbitEdges);
       orbit \<leftarrow> new_Object LineSegmentsK (Some orbitEdges) [lineMaterial];
       exec (scene_add orbit);
       marsMaterial \<leftarrow> new_Material;
       exec (disposableMaterial_add marsMaterial);
       marsGeom \<leftarrow> new_Geometry;
       exec (disposableGeometry_add marsGeom);
       marsM \<leftarrow> new_Object MeshK (Some marsGeom) [marsMaterial];
       exec (\<lambda>s. s\<lparr>mars := Some marsM\<rparr>);
       exec (add sunM marsM);
       marsOrbitGeom \<leftarrow> new_Geometry;
       exec (disposableGeometry_add marsOrbitGeom);
       marsOrbitEdge \<leftarrow> new_Geometry;
       exec (disposableGeometry_add marsOrbitEdge);
       marsOrbit \<leftarrow> new_Object LineSegmentsK (Some marsOrbitEdge) [lineMaterial];
       exec (scene_add marsOrbit);
       exec (gui_add ''LightIntensity'' ''Intensity'');
       exec (gui_add ''Velocity'' ''SystemVelocity'');
       exec (gui_add ''Velocity'' ''EarthVelocity'');
       exec (gui_add ''Velocity'' ''MarsVelocity'')
     })"

definition PlanetsExample_destroy :: "PlanetsExample \<Rightarrow> PlanetsExample" where
  "PlanetsExample_destroy =
     run (do {
       exec Example_destroy;
       exec (\<lambda>s. fold dispose (disposableMaterial s) s);
       exec (\<lambda>s. fold dispose (disposableGeometry s) s);
       exec (\<lambda>s. s\<lparr>disposableGeometry := []\<rparr>);
       exec (\<lambda>s. s\<lparr>disposableMaterial := []\<rparr>);
       exec scene_clear
     })"

text \<open>
  \<^verbatim>\<open>update\<close>: the three bodies are rotated only when all three fields are non-null; the
  scene is then rendered directly, whatever the fields hold.
\<close>

definition PlanetsExample_update :: "number \<Rightarrow> number \<Rightarrow> PlanetsExample \<Rightarrow> PlanetsExample" where
  "PlanetsExample_update delta elapsed s =
     render_direct
       (case (earth s, sun s, mars s) of
          (Some e, Some su, Some m) \<Rightarrow>
            rotateZ m (velocity (marsVelocity s))
              (rotateZ e (velocity (earthVelocity s))
                 (rotateZ su (velocity (systemVelocity s)) s))
        | _ \<Rightarrow> s)"

text \<open>\<^verbatim>\<open>PlanetsExample\<close> does not override \<^verbatim>\<open>render\<close>: the base method runs.\<close>

definition PlanetsExample_render :: "PlanetsExample \<Rightarrow> PlanetsExample" where
  "PlanetsExample_render s = Example_render s"

text \<open>The debug panel writes the tunables between two frames.\<close>

definition set_velocities :: "number \<Rightarrow> number \<Rightarrow> number \<Rightarrow> PlanetsExample \<Rightarrow> PlanetsExample" where
  "set_velocities vs ve vm s =
     s\<lparr>systemVelocity := \<lparr>velocity = vs\<rparr>, earthVelocity := \<lparr>velocity = ve\<rparr>,
       marsVelocity := \<lparr>velocity = vm\<rparr>\<rparr>"

fun planets_call :: "frame_call \<Rightarrow> PlanetsExample \<Rightarrow> PlanetsExample" where
  "planets_call (Update delta elapsed) s = PlanetsExample_update delta elapsed s"
| "planets_call Render s = PlanetsExample_render s"

definition planets_run :: "frame_call list \<Rightarrow> PlanetsExample \<Rightarrow> PlanetsExample" where
  "planets_run cs s = fold planets_call cs s"

definition rotation_of :: "ref option \<Rightarrow> 'a Example_scheme \<Rightarrow> number option" where
  "rotation_of b s =
     (case b of None \<Rightarrow> None
      | Some r \<Rightarrow> if r < length (heap s) then Some (rotZ (heap s ! r)) else None)"


section \<open>\<^verbatim>\<open>GLTFExample\<close> (gltf-example.ts)\<close>

text \<open>
  \<^verbatim>\<open>Clock.getDelta\<close> reads the time of the environment, in milliseconds; it is the
  argument \<open>now\<close>.  A clock that starts itself answers 0 the first time.
\<close>

record Clock =
  autoStart :: bool
  startTime :: number
  oldTime :: number
  elapsedTime :: number
  running :: bool

definition new_Clock :: Clock where
  "new_Clock =
     \<lparr>autoStart = True, startTime = 0, oldTime = 0, elapsedTime = 0, running = False\<rparr>"

definition Clock_getDelta :: "number \<Rightarrow> Clock \<Rightarrow> number \<times> Clock" where
  "Clock_getDelta now c =
     (if autoStart c \<and> \<not> running c
      then (0, c\<lparr>startTime := now, oldTime := now, elapsedTime := 0, running := True\<rparr>)
      else if running c
      then ((now - oldTime c) / 1000,
            c\<lparr>oldTime := now, elapsedTime := elapsedTime c + (now - oldTime c) / 1000\<rparr>)
      else (0, c))"

record AnimationMixer =
  mixer_root :: ref
  mixer_time :: number
  mixer_playing :: "nat list"

record BokehPass =
  renderTargetDepth :: "number \<times> number"
  focus :: number
  aperture :: number
  maxblur :: number

record UnrealBloomPass =
  resolution :: "number \<times> number"
  strength :: number
  radius :: number
  threshold :: number

text \<open>
  The passes of the composer.  The depth-of-field pass of the chain is the object the
  field \<^verbatim>\<open>_bokeh\<close> holds, so the chain only marks its place.
\<close>

datatype pass = RenderPass ref ref | BokehPassOf_bokeh | UnrealBloom UnrealBloomPass

record EffectComposer =
  passes :: "pass list"
  composer_size :: "number \<times> number"

definition EffectComposer_addPass :: "pass \<Rightarrow> EffectComposer \<Rightarrow> EffectComposer" where
  "EffectComposer_addPass p c = c\<lparr>passes := passes c @ [p]\<rparr>"

definition EffectComposer_setSize :: "number \<Rightarrow> number \<Rightarrow> EffectComposer \<Rightarrow> EffectComposer" where
  "EffectComposer_setSize w h c = c\<lparr>composer_size := (w, h)\<rparr>"

text \<open>
  What the glTF loader decodes: a scene subgraph and the animation clips of the file.
\<close>

record GLTF =
  gltf_scene :: asset
  animations :: "nat list"

text \<open>
  \<open>mixer_log\<close> keeps the argument of every call of \<^verbatim>\<open>AnimationMixer.update\<close>;
  \<open>model_load\<close> is the state of the load that \<^verbatim>\<open>initialize\<close> begins.
\<close>

record GLTFExample = Example +
  clock :: Clock
  mixer :: "AnimationMixer option"
  composer :: EffectComposer
  bokeh :: "BokehPass option"
  lights :: "ref list"
  mixer_log :: "number list"
  model_load :: load_state

text \<open>
  The constructor; \<open>innerWidth\<close> and \<open>innerHeight\<close> are the size of the window.  The
  handlers that the debug panel calls when a control changes are not part of the model.
\<close>

definition GLTFExample_constructor :: "WebGLRenderer \<Rightarrow> number \<Rightarrow> number \<Rightarrow> GLTFExample" where
  "GLTFExample_constructor r innerWidth innerHeight =
     run (do {
       directionalLight \<leftarrow> new_Object LightK None [];
       exec (\<lambda>s. s\<lparr>lights := lights s @ [directionalLight]\<rparr>);
       pointLight \<leftarrow> new_Object LightK None [];
       exec (\<lambda>s. s\<lparr>lights := lights s @ [pointLight]\<rparr>);
       exec (gui_add ''Light'' ''Intensity'');
       exec (gui_add ''Light'' ''Color'');
       exec (\<lambda>s. s\<lparr>composer :=
          EffectComposer_addPass (RenderPass (scene s) (cam s)) (composer s)\<rparr>);
       exec (\<lambda>s. s\<lparr>bokeh := Some \<lparr>renderTargetDepth = (innerWidth, innerHeight),
          focus = 1.0, aperture = 1.5, maxblur = 0.0\<rparr>\<rparr>);
       exec (gui_add ''FieldOfDepth'' ''Focus'');
       exec (gui_add ''FieldOfDepth'' ''Aperture'');
       exec (gui_add ''FieldOfDepth'' ''Maxblur'');
       exec (\<lambda>s. s\<lparr>composer := EffectComposer_addPass BokehPassOf_bokeh (composer s)\<rparr>);
       exec (\<lambda>s. s\<lparr>composer := EffectComposer_addPass
          (UnrealBloom \<lparr>resolution = (innerWidth, innerHeight), strength = 0.4,
             radius = 0.4, threshold = 0.8\<rparr>) (composer s)\<rparr>);
       exec (gui_add ''NeonEffect'' ''Strength'');
       exec (gui_add ''NeonEffect'' ''Threshold'');
       exec (gui_add ''NeonEffect'' ''Radius'')
     })
     (Example.extend (Example_constructor r)
        \<lparr>clock = new_Clock, mixer = None,
         composer = \<lparr>passes = [], composer_size = (innerWidth, innerHeight)\<rparr>,
         bokeh = None, lights = [], mixer_log = [], model_load = NotStarted\<rparr>)"

definition GLTFExample_initialize :: "GLTFExample \<Rightarrow> GLTFExample" where
  "GLTFExample_initialize =
     run (do {
       exec Example_initialize;
       exec (\<lambda>s. s\<lparr>model_load := Pending\<rparr>);
       exec (\<lambda>s. fold scene_add (lights s) s)
     })"

text \<open>
  The callback given to \<^verbatim>\<open>loader.load\<close>.  \<^verbatim>\<open>clipAction\<close> dereferences the clip it is
  given, so a file without animation makes the callback raise before the model is added.
  The state at a raise is not kept.
\<close>

definition GLTFExample_onLoad :: "GLTF \<Rightarrow> GLTFExample \<Rightarrow> error + GLTFExample" where
  "GLTFExample_onLoad elm s =
     (case animations elm of
        [] \<Rightarrow> Inl TypeError
      | clip # _ \<Rightarrow>
          Inr (run (do {
            root \<leftarrow> link (gltf_scene elm);
            exec (\<lambda>s. s\<lparr>mixer :=
              Some \<lparr>mixer_root = root, mixer_time = 0, mixer_playing = [clip]\<rparr>\<rparr>);
            exec (scene_add root)
          }) s))"

text \<open>The loader delivers one completion for a load that is pending.\<close>

definition gltf_loaded :: "GLTF \<Rightarrow> GLTFExample \<Rightarrow> error + GLTFExample" where
  "gltf_loaded elm s =
     (if model_load s = Pending then GLTFExample_onLoad elm (s\<lparr>model_load := Completed\<rparr>)
      else Inr s)"

text \<open>
  The callback of \<^verbatim>\<open>traverse\<close> in \<^verbatim>\<open>destroy\<close>: a mesh disposes its geometry, then its
  materials.
\<close>

definition dispose_mesh :: "ref \<Rightarrow> 'a Example_scheme \<Rightarrow> 'a Example_scheme" where
  "dispose_mesh r s =
     (if r < length (heap s) \<and> isMesh (heap s ! r)
      then fold dispose (material (heap s ! r))
             (case geometry (heap s ! r) of None \<Rightarrow> s | Some g \<Rightarrow> dispose g s)
      else s)"

definition GLTFExample_destroy :: "GLTFExample \<Rightarrow> error + GLTFExample" where
  "GLTFExample_destroy s =
     (case traverse (length (heap (Example_destroy s))) (heap (Example_destroy s))
             (scene (Example_destroy s)) of
        None \<Rightarrow> Inl RangeError
      | Some rs \<Rightarrow> Inr (scene_clear (fold dispose_mesh rs (Example_destroy s))))"

text \<open>\<^verbatim>\<open>render\<close> is overridden: the composer runs its chain, the base method does not run.\<close>

definition EffectComposer_render :: "'a Example_scheme \<Rightarrow> 'a Example_scheme" where
  "EffectComposer_render s =
     s\<lparr>renderer := (renderer s)\<lparr>submissions := submissions (renderer s) @ [ComposerRender]\<rparr>\<rparr>"

definition GLTFExample_render :: "GLTFExample \<Rightarrow> GLTFExample" where
  "GLTFExample_render s = EffectComposer_render s"

text \<open>\<^verbatim>\<open>this._mixer?.update(delta)\<close>: nothing happens while the field is undefined.\<close>

definition mixer_advance :: "number \<Rightarrow> GLTFExample \<Rightarrow> GLTFExample" where
  "mixer_advance delta s =
     (case mixer s of
        None \<Rightarrow> s
      | Some m \<Rightarrow> s\<lparr>mixer := Some (m\<lparr>mixer_time := mixer_time m + delta\<rparr>),
                    mixer_log := mixer_log s @ [delta]\<rparr>)"

definition GLTFExample_update :: "number \<Rightarrow> GLTFExample \<Rightarrow> GLTFExample" where
  "GLTFExample_update now s =
     render_direct
       (mixer_advance (fst (Clock_getDelta now (clock s)))
          (s\<lparr>clock := snd (Clock_getDelta now (clock s))\<rparr>))"

text \<open>\<^verbatim>\<open>this._bokeh?.renderTargetDepth.setSize(w, h)\<close> is skipped while the field is undefined.\<close>

definition GLTFExample_resize :: "number \<Rightarrow> number \<Rightarrow> GLTFExample \<Rightarrow> GLTFExample" where
  "GLTFExample_resize w h =
     run (do {
       exec (Example_resize w h);
       exec (\<lambda>s. case bokeh s of
                   None \<Rightarrow> s
                 | Some b \<Rightarrow> s\<lparr>bokeh := Some (b\<lparr>renderTargetDepth := (w, h)\<rparr>)\<rparr>);
       exec (\<lambda>s. s\<lparr>composer := EffectComposer_setSize w h (composer s)\<rparr>)
     })"

text \<open>The frame loop of this example; \<open>update\<close> carries the time the clock reads.\<close>

datatype gltf_call = GLTF_update number | GLTF_render

fun gltf_step :: "gltf_call \<Rightarrow> GLTFExample \<Rightarrow> GLTFExample" where
  "gltf_step (GLTF_update now) s = GLTFExample_update now s"
| "gltf_step GLTF_render s = GLTFExample_render s"

definition gltf_run :: "gltf_call list \<Rightarrow> GLTFExample \<Rightarrow> GLTFExample" where
  "gltf_run cs s = fold gltf_step cs s"


section \<open>\<^verbatim>\<open>TextureExample\<close> (texture-example.ts)\<close>

text \<open>
  \<^verbatim>\<open>LoadingManager\<close>: \<^verbatim>\<open>itemStart\<close> counts a load that begins, \<^verbatim>\<open>itemEnd\<close> one that
  ends, with or without error; when as many have ended as have begun, the handler
  \<^verbatim>\<open>onLoad\<close> is called if one is installed.  \<open>onLoad\<close> tells whether the handler of
  \<^verbatim>\<open>initialize\<close> is installed.  The first component of \<open>LoadingManager_itemEnd\<close> tells
  whether the handler is to be called.
\<close>

record LoadingManager =
  itemsLoaded :: nat
  itemsTotal :: nat
  isLoading :: bool
  onLoad :: bool

definition new_LoadingManager :: LoadingManager where
  "new_LoadingManager = \<lparr>itemsLoaded = 0, itemsTotal = 0, isLoading = False, onLoad = False\<rparr>"

definition LoadingManager_itemStart :: "LoadingManager \<Rightarrow> LoadingManager" where
  "LoadingManager_itemStart m = m\<lparr>itemsTotal := Suc (itemsTotal m), isLoading := True\<rparr>"

definition LoadingManager_itemEnd :: "LoadingManager \<Rightarrow> bool \<times> LoadingManager" where
  "LoadingManager_itemEnd m =
     (if Suc (itemsLoaded m) = itemsTotal m
      then (onLoad m, m\<lparr>itemsLoaded := Suc (itemsLoaded m), isLoading := False\<rparr>)
      else (False, m\<lparr>itemsLoaded := Suc (itemsLoaded m)\<rparr>))"

text \<open>
  The variables that the closures of \<^verbatim>\<open>initialize\<close> share are fields of the state:
  \<open>loadManager\<close>, the four \<open>textures\<close> (the state of each load), \<open>composed\<close> (the variable
  \<^verbatim>\<open>material\<close>), and the states of the model load and of the cubemap load.
\<close>

record TextureExample = Example +
  loadManager :: LoadingManager
  textures :: "load_state list"
  composed :: "resource option"
  obj_load :: load_state
  hdr_load :: load_state
  environment :: bool
  background :: bool

definition TextureExample_constructor :: "WebGLRenderer \<Rightarrow> TextureExample" where
  "TextureExample_constructor r =
     run (exec (\<lambda>s. s\<lparr>renderer := (renderer s)\<lparr>shadowMapEnabled := True\<rparr>\<rparr>))
       (Example.extend (Example_constructor r)
          \<lparr>loadManager = new_LoadingManager, textures = [], composed = None,
           obj_load = NotStarted, hdr_load = NotStarted,
           environment = False, background = False\<rparr>)"

text \<open>\<^verbatim>\<open>textureLoader.load\<close>: the load begins and is counted by the manager.\<close>

definition TextureLoader_load :: "TextureExample \<Rightarrow> TextureExample" where
  "TextureLoader_load s =
     s\<lparr>textures := textures s @ [Pending],
       loadManager := LoadingManager_itemStart (loadManager s)\<rparr>"

definition TextureExample_initialize :: "TextureExample \<Rightarrow> TextureExample" where
  "TextureExample_initialize =
     run (do {
       exec Example_initialize;
       exec (\<lambda>s. s\<lparr>loadManager := new_LoadingManager\<rparr>);
       exec TextureLoader_load;
       exec TextureLoader_load;
       exec TextureLoader_load;
       exec TextureLoader_load;
       material \<leftarrow> new_Material;
       exec (\<lambda>s. s\<lparr>composed := Some material\<rparr>);
       exec (\<lambda>s. s\<lparr>loadManager := (loadManager s)\<lparr>onLoad := True\<rparr>\<rparr>);
       directionalLight \<leftarrow> new_Object LightK None [];
       exec (\<lambda>s. s\<lparr>heap := modify directionalLight (\<lambda>obj. obj\<lparr>castShadow := True\<rparr>) (heap s)\<rparr>);
       exec (scene_add directionalLight);
       planeGeometry \<leftarrow> new_Geometry;
       shadowMaterial \<leftarrow> new_Material;
       plane \<leftarrow> new_Object MeshK (Some planeGeometry) [shadowMaterial];
       exec (scene_add plane);
       exec (\<lambda>s. s\<lparr>hdr_load := Pending\<rparr>);
       exec (\<lambda>s. s\<lparr>background := True\<rparr>)
     })"

text \<open>The handler \<^verbatim>\<open>loadManager.onLoad\<close>: the model load begins.\<close>

definition manager_onLoad :: "TextureExample \<Rightarrow> TextureExample" where
  "manager_onLoad s = s\<lparr>obj_load := Pending\<rparr>"

text \<open>
  The image of texture \<open>i\<close> arrives, or fails to: the load ends, the manager counts it
  and calls its handler when it was the last one.
\<close>

definition texture_ended :: "nat \<Rightarrow> load_state \<Rightarrow> TextureExample \<Rightarrow> TextureExample" where
  "texture_ended i outcome s =
     (if i < length (textures s) \<and> textures s ! i = Pending
      then (if fst (LoadingManager_itemEnd (loadManager s)) then manager_onLoad else id)
             (s\<lparr>textures := (textures s)[i := outcome],
                loadManager := snd (LoadingManager_itemEnd (loadManager s))\<rparr>)
      else s)"

text \<open>
  The callback given to the OBJ loader: every mesh of the loaded object casts shadows and
  gets the composed material; the object is then added to the scene.
\<close>

definition apply_material :: "resource \<Rightarrow> Object3D \<Rightarrow> Object3D" where
  "apply_material m elm = (if isMesh elm then elm\<lparr>castShadow := True, material := [m]\<rparr> else elm)"

definition TextureExample_onObjLoad :: "asset \<Rightarrow> TextureExample \<Rightarrow> TextureExample" where
  "TextureExample_onObjLoad obj s =
     (case composed s of
        None \<Rightarrow> s
      | Some m \<Rightarrow>
          run (do {
            root \<leftarrow> link (asset_traverse (apply_material m) obj);
            exec (scene_add root)
          }) s)"

definition TextureExample_destroy :: "TextureExample \<Rightarrow> TextureExample" where
  "TextureExample_destroy s = Example_destroy s"

definition TextureExample_update :: "TextureExample \<Rightarrow> TextureExample" where
  "TextureExample_update s = s"

text \<open>
  Whatever can happen to the example once it is constructed: a call of one of its
  methods, or the end of one of the loads it began.  An end is delivered once, to a load
  that is pending.
\<close>

datatype texture_event =
    TextureLoaded nat | TextureError nat
  | ObjLoaded asset | ObjError
  | HdrLoaded
  | CallUpdate | CallRender | CallDestroy | CallResize number number

fun texture_step :: "texture_event \<Rightarrow> TextureExample \<Rightarrow> TextureExample" where
  "texture_step (TextureLoaded i) s = texture_ended i Completed s"
| "texture_step (TextureError i) s = texture_ended i Failed s"
| "texture_step (ObjLoaded obj) s =
     (if obj_load s = Pending then TextureExample_onObjLoad obj (s\<lparr>obj_load := Completed\<rparr>)
      else s)"
| "texture_step ObjError s = (if obj_load s = Pending then s\<lparr>obj_load := Failed\<rparr> else s)"
| "texture_step HdrLoaded s =
     (if hdr_load s = Pending then s\<lparr>hdr_load := Completed, environment := True\<rparr> else s)"
| "texture_step CallUpdate s = TextureExample_update s"
| "texture_step CallRender s = Example_render s"
| "texture_step CallDestroy s = TextureExample_destroy s"
| "texture_step (CallResize w h) s = Example_resize w h s"

definition texture_run :: "texture_event list \<Rightarrow> TextureExample \<Rightarrow> TextureExample" where
  "texture_run evs s = fold texture_step evs s"

definition material_applied :: "TextureExample \<Rightarrow> bool" where
  "material_applied s =
     (case composed s of
        None \<Rightarrow> False
      | Some m \<Rightarrow> list_ex (\<lambda>obj. isMesh obj \<and> material obj = [m]) (heap s))"

definition pending :: "load_state \<Rightarrow> bool" where
  "pending l = (l = NotStarted \<or> l = Pending)"


section \<open>Completions that arrive after \<^verbatim>\<open>destroy\<close>\<close>

text \<open>
  \<^verbatim>\<open>destroy\<close> runs while the model load is pending, then the loader delivers the model.
\<close>

definition gltf_destroy_then_load :: "GLTF \<Rightarrow> GLTFExample \<Rightarrow> error + GLTFExample" where
  "gltf_destroy_then_load elm s =
     (case GLTFExample_destroy s of Inl e \<Rightarrow> Inl e | Inr d \<Rightarrow> gltf_loaded elm d)"

section \<open>Evaluation of the constructors and of \<^verbatim>\<open>initialize\<close>\<close>

lemmas lib_defs = new_Object3D_def modify_def children_of_def parent_of_def Object3D_remove_def
  Object3D_add_def Object3D_clear_def Object3D_rotateZ_def WebGLRenderer_render_def Set_add_def
  new_Geometry_def new_Material_def new_Object_def link_def dispose_def add_def scene_add_def
  scene_clear_def rotateZ_def render_direct_def gui_add_def run_def
  Example_constructor_def Example_initialize_def Example_destroy_def
  Example_render_def Example_resize_def Example.defs State_Monad.update_def

lemma planets_init:
  "PlanetsExample_initialize (PlanetsExample_constructor r) =
   \<lparr>heap =
      [\<lparr>kind = SceneK, parent = None, children = [2, 5, 7], geometry = None,
        material = [], rotZ = 0, castShadow = False\<rparr>,
       \<lparr>kind = CameraK, parent = None, children = [], geometry = None,
        material = [], rotZ = 0, castShadow = False\<rparr>,
       \<lparr>kind = MeshK, parent = Some 0, children = [3, 4, 6],
        geometry = Some (Geometry 2), material = [Material 1], rotZ = 0,
        castShadow = False\<rparr>,
       \<lparr>kind = LightK, parent = Some 2, children = [], geometry = None,
        material = [], rotZ = 0, castShadow = False\<rparr>,
       \<lparr>kind = MeshK, parent = Some 2, children = [],
        geometry = Some (Geometry 4), material = [Material 3], rotZ = 0,
        castShadow = False\<rparr>,
       \<lparr>kind = LineSegmentsK, parent = Some 0, children = [],
        geometry = Some (Geometry 6), material = [Material 0], rotZ = 0,
        castShadow = False\<rparr>,
       \<lparr>kind = MeshK, parent = Some 2, children = [],
        geometry = Some (Geometry 8), material = [Material 7], rotZ = 0,
        castShadow = False\<rparr>,
       \<lparr>kind = LineSegmentsK, parent = Some 0, children = [],
        geometry = Some (Geometry 10), material = [Material 0], rotZ = 0,
        castShadow = False\<rparr>],
    created =
      [Material 0, Material 1, Geometry 2, Material 3, Geometry 4,
       Geometry 5, Geometry 6, Material 7, Geometry 8, Geometry 9,
       Geometry 10],
    disposed = [], scene = 0, cam = 1, renderer = r,
    gui =
      [(''LightIntensity'', ''Intensity''), (''Velocity'', ''SystemVelocity''),
       (''Velocity'', ''EarthVelocity''), (''Velocity'', ''MarsVelocity'')],
    earth = Some 4, mars = Some 6, sun = Some 2,
    disposableMaterial = [Material 0, Material 1, Material 3, Material 7],
    disposableGeometry =
      [Geometry 2, Geometry 4, Geometry 5, Geometry 6, Geometry 8,
       Geometry 9, Geometry 10],
    systemVelocity = \<lparr>velocity = 3 / 2000\<rparr>,
    earthVelocity = \<lparr>velocity = 1 / 200\<rparr>,
    marsVelocity = \<lparr>velocity = 3 / 1000\<rparr>\<rparr>"
  by (simp add: PlanetsExample_initialize_def PlanetsExample_constructor_def
      disposableMaterial_add_def disposableGeometry_add_def lib_defs
      cong: prod.case_cong_weak)

lemma planets_destroyed:
  "PlanetsExample_destroy (set_velocities vs ve vm
     (PlanetsExample_initialize (PlanetsExample_constructor r))) =
   \<lparr>heap =
      [\<lparr>kind = SceneK, parent = None, children = [], geometry = None,
        material = [], rotZ = 0, castShadow = False\<rparr>,
       \<lparr>kind = CameraK, parent = None, children = [], geometry = None,
        material = [], rotZ = 0, castShadow = False\<rparr>,
       \<lparr>kind = MeshK, parent = None, children = [3, 4, 6],
        geometry = Some (Geometry 2), material = [Material 1], rotZ = 0,
        castShadow = False\<rparr>,
       \<lparr>kind = LightK, parent = Some 2, children = [], geometry = None,
        material = [], rotZ = 0, castShadow = False\<rparr>,
       \<lparr>kind = MeshK, parent = Some 2, children = [],
        geometry = Some (Geometry 4), material = [Material 3], rotZ = 0,
        castShadow = False\<rparr>,
       \<lparr>kind = LineSegmentsK, parent = None, children = [],
        geometry = Some (Geometry 6), material = [Material 0], rotZ = 0,
        castShadow = False\<rparr>,
       \<lparr>kind = MeshK, parent = Some 2, children = [],
        geometry = Some (Geometry 8), material = [Material 7], rotZ = 0,
        castShadow = False\<rparr>,
       \<lparr>kind = LineSegmentsK, parent = None, children = [],
        geometry = Some (Geometry 10), material = [Material 0], rotZ = 0,
        castShadow = False\<rparr>],
    created =
      [Material 0, Material 1, Geometry 2, Material 3, Geometry 4,
       Geometry 5, Geometry 6, Material 7, Geometry 8, Geometry 9,
       Geometry 10],
    disposed =
      [Material 0, Material 1, Material 3, Material 7, Geometry 2,
       Geometry 4, Geometry 5, Geometry 6, Geometry 8, Geometry 9,
       Geometry 10],
    scene = 0, cam = 1, renderer = r,
    gui =
      [(''LightIntensity'', ''Intensity''), (''Velocity'', ''SystemVelocity''),
       (''Velocity'', ''EarthVelocity''), (''Velocity'', ''MarsVelocity'')],
    earth = Some 4, mars = Some 6, sun = Some 2,
    disposableMaterial = [], disposableGeometry = [],
    systemVelocity = \<lparr>velocity = vs\<rparr>,
    earthVelocity = \<lparr>velocity = ve\<rparr>,
    marsVelocity = \<lparr>velocity = vm\<rparr>\<rparr>"
  by (simp add: planets_init PlanetsExample_destroy_def set_velocities_def lib_defs
      cong: prod.case_cong_weak)


section \<open>\<^verbatim>\<open>PlanetsExample\<close>: rotation, disposal, misuse\<close>

lemma planets_call_frame:
  assumes "earth s = Some e" "sun s = Some su" "mars s = Some m"
    and "e \<noteq> su" "e \<noteq> m" "su \<noteq> m"
    and "e < length (heap s)" "su < length (heap s)" "m < length (heap s)"
  shows "earth (planets_call c s) = Some e \<and> sun (planets_call c s) = Some su
       \<and> mars (planets_call c s) = Some m
       \<and> length (heap (planets_call c s)) = length (heap s)
       \<and> systemVelocity (planets_call c s) = systemVelocity s
       \<and> earthVelocity (planets_call c s) = earthVelocity s
       \<and> marsVelocity (planets_call c s) = marsVelocity s
       \<and> rotZ (heap (planets_call c s) ! su) =
           rotZ (heap s ! su) + (if is_update c then velocity (systemVelocity s) else 0)
       \<and> rotZ (heap (planets_call c s) ! e) =
           rotZ (heap s ! e) + (if is_update c then velocity (earthVelocity s) else 0)
       \<and> rotZ (heap (planets_call c s) ! m) =
           rotZ (heap s ! m) + (if is_update c then velocity (marsVelocity s) else 0)"
  using assms
  by (cases c)
    (simp_all add: PlanetsExample_update_def PlanetsExample_render_def Example_render_def
      render_direct_def rotateZ_def modify_def Object3D_rotateZ_def)

lemma planets_run_rotation:
  assumes "earth s = Some e" "sun s = Some su" "mars s = Some m"
    and "e \<noteq> su" "e \<noteq> m" "su \<noteq> m"
    and "e < length (heap s)" "su < length (heap s)" "m < length (heap s)"
  shows "earth (planets_run cs s) = Some e \<and> sun (planets_run cs s) = Some su
       \<and> mars (planets_run cs s) = Some m
       \<and> length (heap (planets_run cs s)) = length (heap s)
       \<and> rotZ (heap (planets_run cs s) ! su) =
           rotZ (heap s ! su) + real (updates cs) * velocity (systemVelocity s)
       \<and> rotZ (heap (planets_run cs s) ! e) =
           rotZ (heap s ! e) + real (updates cs) * velocity (earthVelocity s)
       \<and> rotZ (heap (planets_run cs s) ! m) =
           rotZ (heap s ! m) + real (updates cs) * velocity (marsVelocity s)"
  using assms
proof (induction cs arbitrary: s)
  case Nil
  then show ?case by (simp add: planets_run_def updates_def)
next
  case (Cons c cs)
  note f = planets_call_frame [OF Cons.prems, of c]
  have unroll: "planets_run (c # cs) s = planets_run cs (planets_call c s)"
    by (simp add: planets_run_def)
  have ih: "earth (planets_run cs (planets_call c s)) = Some e \<and>
      sun (planets_run cs (planets_call c s)) = Some su \<and>
      mars (planets_run cs (planets_call c s)) = Some m \<and>
      length (heap (planets_run cs (planets_call c s))) = length (heap (planets_call c s)) \<and>
      rotZ (heap (planets_run cs (planets_call c s)) ! su) =
        rotZ (heap (planets_call c s) ! su)
          + real (updates cs) * velocity (systemVelocity (planets_call c s)) \<and>
      rotZ (heap (planets_run cs (planets_call c s)) ! e) =
        rotZ (heap (planets_call c s) ! e)
          + real (updates cs) * velocity (earthVelocity (planets_call c s)) \<and>
      rotZ (heap (planets_run cs (planets_call c s)) ! m) =
        rotZ (heap (planets_call c s) ! m)
          + real (updates cs) * velocity (marsVelocity (planets_call c s))"
    using f Cons.prems by (intro Cons.IH) simp_all
  show ?case
    unfolding unroll using ih f
    by (cases "is_update c") (simp_all add: updates_def algebra_simps)
qed

text \<open>
  C4.  After \<^verbatim>\<open>initialize\<close>, with the three tunable velocities holding \<open>vs\<close>, \<open>ve\<close> and
  \<open>vm\<close>, any interleaving of \<^verbatim>\<open>update\<close> and \<^verbatim>\<open>render\<close> calls leaves the sun, the earth and
  mars rotated about z by the number of \<^verbatim>\<open>update\<close> calls times the velocity of the body;
  the \<^verbatim>\<open>render\<close> calls do not count.  Numbers are exact reals, so the equality is exact.
\<close>

theorem planets_cumulative_rotation:
  "let s = planets_run cs (set_velocities vs ve vm
             (PlanetsExample_initialize (PlanetsExample_constructor r)))
   in rotation_of (sun s) s = Some (real (updates cs) * vs)
    \<and> rotation_of (earth s) s = Some (real (updates cs) * ve)
    \<and> rotation_of (mars s) s = Some (real (updates cs) * vm)"
proof -
  let ?s = "set_velocities vs ve vm (PlanetsExample_initialize (PlanetsExample_constructor r))"
  have "earth ?s = Some 4" "sun ?s = Some 2" "mars ?s = Some 6"
       "(4::nat) \<noteq> 2" "(4::nat) \<noteq> 6" "(2::nat) \<noteq> 6"
       "4 < length (heap ?s)" "2 < length (heap ?s)" "6 < length (heap ?s)"
    by (simp_all add: set_velocities_def planets_init)
  from planets_run_rotation [OF this, of cs]
  show ?thesis
    by (simp add: planets_init rotation_of_def set_velocities_def Let_def)
qed

theorem planets_cumulative_rotation_witness:
  "let s = planets_run [Update 16 16, Render, Update 16 32, Render, Render, Update 17 49]
             (set_velocities 0.5 0.25 0
                (PlanetsExample_initialize (PlanetsExample_constructor renderer0)))
   in rotation_of (sun s) s = Some 1.5
    \<and> rotation_of (earth s) s = Some 0.75
    \<and> rotation_of (mars s) s = Some 0"
  using planets_cumulative_rotation
    [of "[Update 16 16, Render, Update 16 32, Render, Render, Update 17 49]" "0.5" "0.25" 0 renderer0]
  by (simp add: updates_def Let_def)

text \<open>
  Disposal in \<^verbatim>\<open>PlanetsExample\<close>: after \<^verbatim>\<open>initialize\<close> and \<^verbatim>\<open>destroy\<close>, every geometry and
  material that was created has been disposed exactly once, and the scene root has no
  child.
\<close>

lemma planets_disposed_once:
  assumes "x \<in> set (created (PlanetsExample_destroy
       (PlanetsExample_initialize (PlanetsExample_constructor r))))"
  shows "dispose_count (PlanetsExample_destroy
       (PlanetsExample_initialize (PlanetsExample_constructor r))) x = 1"
proof -
  let ?d = "PlanetsExample_destroy (PlanetsExample_initialize (PlanetsExample_constructor r))"
  have d: "?d = PlanetsExample_destroy (set_velocities (3 / 2000) (1 / 200) (3 / 1000)
      (PlanetsExample_initialize (PlanetsExample_constructor r)))"
    by (simp add: planets_init set_velocities_def)
  have c: "created ?d =
      [Material 0, Material 1, Geometry 2, Material 3, Geometry 4,
       Geometry 5, Geometry 6, Material 7, Geometry 8, Geometry 9, Geometry 10]"
    unfolding d planets_destroyed by simp
  have "disposed ?d =
      [Material 0, Material 1, Material 3, Material 7, Geometry 2,
       Geometry 4, Geometry 5, Geometry 6, Geometry 8, Geometry 9, Geometry 10]"
    unfolding d planets_destroyed by simp
  then have "dispose_count ?d x =
      count_list [Material 0, Material 1, Material 3, Material 7, Geometry 2,
       Geometry 4, Geometry 5, Geometry 6, Geometry 8, Geometry 9, Geometry 10] x"
    by (simp only: dispose_count_def)
  moreover have "x \<in> set [Material 0, Material 1, Geometry 2, Material 3, Geometry 4,
       Geometry 5, Geometry 6, Material 7, Geometry 8, Geometry 9, Geometry 10]"
    using assms by (simp only: c)
  ultimately show ?thesis by auto
qed

lemma planets_destroy_clears_scene:
  "scene_children (PlanetsExample_destroy
       (PlanetsExample_initialize (PlanetsExample_constructor r))) = []"
  using planets_destroyed [of "3 / 2000" "1 / 200" "3 / 1000" r]
  by (simp add: planets_init set_velocities_def scene_children_def children_of_def)


text \<open>
  C9.  The claim asks for a call of \<^verbatim>\<open>update\<close> before \<^verbatim>\<open>initialize\<close> or after \<^verbatim>\<open>destroy\<close>
  to change nothing and to submit nothing.  Before \<^verbatim>\<open>initialize\<close>, \<^verbatim>\<open>PlanetsExample.update\<close>
  submits a direct render; after \<^verbatim>\<open>destroy\<close> it still rotates the sun.
\<close>

theorem planets_update_misuse_counterexample:
  "submissions (renderer (PlanetsExample_update 0 0 (PlanetsExample_constructor renderer0)))
     \<noteq> submissions (renderer (PlanetsExample_constructor renderer0))
   \<and> rotation_of (Some 2)
        (PlanetsExample_update 0 0
          (PlanetsExample_destroy (set_velocities (3 / 2000) (1 / 200) (3 / 1000)
            (PlanetsExample_initialize (PlanetsExample_constructor renderer0)))))
     \<noteq> rotation_of (Some 2)
        (PlanetsExample_destroy (set_velocities (3 / 2000) (1 / 200) (3 / 1000)
          (PlanetsExample_initialize (PlanetsExample_constructor renderer0))))"
  unfolding planets_destroyed
  by (simp add: PlanetsExample_update_def PlanetsExample_constructor_def rotation_of_def
      renderer0_def lib_defs)

text \<open>
  C9, as the code has it.  \<^verbatim>\<open>update\<close> has no lifecycle guard.  Before \<^verbatim>\<open>initialize\<close>,
  \<^verbatim>\<open>PlanetsExample.update\<close> leaves the object store as it is (the three body fields are
  null) and submits one direct render.  After \<^verbatim>\<open>destroy\<close>, it adds to the rotation of each
  body the velocity of the body, and submits one direct render.
\<close>

theorem planets_update_unguarded:
  "heap (PlanetsExample_update delta elapsed (PlanetsExample_constructor r))
     = heap (PlanetsExample_constructor r)
   \<and> submissions (renderer (PlanetsExample_update delta elapsed (PlanetsExample_constructor r)))
     = submissions r @ [DirectRender 0 1]
   \<and> (let d = PlanetsExample_destroy (set_velocities vs ve vm
                 (PlanetsExample_initialize (PlanetsExample_constructor r)));
           u = PlanetsExample_update delta elapsed d
       in rotation_of (sun d) d = Some 0 \<and> rotation_of (sun u) u = Some vs
        \<and> rotation_of (earth d) d = Some 0 \<and> rotation_of (earth u) u = Some ve
        \<and> rotation_of (mars d) d = Some 0 \<and> rotation_of (mars u) u = Some vm
        \<and> submissions (renderer u) = submissions r @ [DirectRender 0 1])"
  unfolding planets_destroyed
  by (simp add: PlanetsExample_update_def PlanetsExample_constructor_def rotation_of_def
      Let_def lib_defs)

theorem planets_update_unguarded_witness:
  "submissions (renderer (PlanetsExample_update 16 16 (PlanetsExample_constructor renderer0)))
     = [DirectRender 0 1]
   \<and> rotation_of (Some 2)
        (PlanetsExample_update 16 16
          (PlanetsExample_destroy (set_velocities (3 / 2000) (1 / 200) (3 / 1000)
            (PlanetsExample_initialize (PlanetsExample_constructor renderer0)))))
     = Some (3 / 2000)"
  using planets_update_unguarded [of 16 16 renderer0 "3 / 2000" "1 / 200" "3 / 1000"]
  unfolding planets_destroyed
  by (simp add: Let_def renderer0_def PlanetsExample_update_def lib_defs)


section \<open>\<^verbatim>\<open>GLTFExample\<close>: frames, resize\<close>

lemma gltf_constructed:
  "GLTFExample_constructor r w h =
   \<lparr>heap =
      [\<lparr>kind = SceneK, parent = None, children = [], geometry = None,
        material = [], rotZ = 0, castShadow = False\<rparr>,
       \<lparr>kind = CameraK, parent = None, children = [], geometry = None,
        material = [], rotZ = 0, castShadow = False\<rparr>,
       \<lparr>kind = LightK, parent = None, children = [], geometry = None,
        material = [], rotZ = 0, castShadow = False\<rparr>,
       \<lparr>kind = LightK, parent = None, children = [], geometry = None,
        material = [], rotZ = 0, castShadow = False\<rparr>],
    created = [], disposed = [], scene = 0, cam = 1, renderer = r,
    gui =
      [(''Light'', ''Intensity''), (''Light'', ''Color''),
       (''FieldOfDepth'', ''Focus''), (''FieldOfDepth'', ''Aperture''),
       (''FieldOfDepth'', ''Maxblur''), (''NeonEffect'', ''Strength''),
       (''NeonEffect'', ''Threshold''), (''NeonEffect'', ''Radius'')],
    clock = \<lparr>autoStart = True, startTime = 0, oldTime = 0, elapsedTime = 0,
      running = False\<rparr>,
    mixer = None,
    composer =
      \<lparr>passes =
         [RenderPass 0 1, BokehPassOf_bokeh,
          UnrealBloom \<lparr>resolution = (w, h), strength = 2 / 5, radius = 2 / 5,
            threshold = 4 / 5\<rparr>],
       composer_size = (w, h)\<rparr>,
    bokeh = Some \<lparr>renderTargetDepth = (w, h), focus = 1, aperture = 3 / 2, maxblur = 0\<rparr>,
    lights = [2, 3], mixer_log = [], model_load = NotStarted\<rparr>"
  by (simp add: GLTFExample_constructor_def new_Clock_def EffectComposer_addPass_def lib_defs
      cong: prod.case_cong_weak)

lemma gltf_initialized:
  "GLTFExample_initialize (GLTFExample_constructor r w h) =
   \<lparr>heap =
      [\<lparr>kind = SceneK, parent = None, children = [2, 3], geometry = None,
        material = [], rotZ = 0, castShadow = False\<rparr>,
       \<lparr>kind = CameraK, parent = None, children = [], geometry = None,
        material = [], rotZ = 0, castShadow = False\<rparr>,
       \<lparr>kind = LightK, parent = Some 0, children = [], geometry = None,
        material = [], rotZ = 0, castShadow = False\<rparr>,
       \<lparr>kind = LightK, parent = Some 0, children = [], geometry = None,
        material = [], rotZ = 0, castShadow = False\<rparr>],
    created = [], disposed = [], scene = 0, cam = 1, renderer = r,
    gui =
      [(''Light'', ''Intensity''), (''Light'', ''Color''),
       (''FieldOfDepth'', ''Focus''), (''FieldOfDepth'', ''Aperture''),
       (''FieldOfDepth'', ''Maxblur''), (''NeonEffect'', ''Strength''),
       (''NeonEffect'', ''Threshold''), (''NeonEffect'', ''Radius'')],
    clock = \<lparr>autoStart = True, startTime = 0, oldTime = 0, elapsedTime = 0,
      running = False\<rparr>,
    mixer = None,
    composer =
      \<lparr>passes =
         [RenderPass 0 1, BokehPassOf_bokeh,
          UnrealBloom \<lparr>resolution = (w, h), strength = 2 / 5, radius = 2 / 5,
            threshold = 4 / 5\<rparr>],
       composer_size = (w, h)\<rparr>,
    bokeh = Some \<lparr>renderTargetDepth = (w, h), focus = 1, aperture = 3 / 2, maxblur = 0\<rparr>,
    lights = [2, 3], mixer_log = [], model_load = Pending\<rparr>"
  unfolding gltf_constructed
  by (simp add: GLTFExample_initialize_def lib_defs cong: prod.case_cong_weak)

text \<open>
  C3.  One frame of \<^verbatim>\<open>GLTFExample\<close>, \<^verbatim>\<open>update\<close> then \<^verbatim>\<open>render\<close>, submits the scene twice:
  \<^verbatim>\<open>update\<close> calls \<^verbatim>\<open>this._renderer.render(this._scene, this._cam)\<close>, the direct path, and
  \<^verbatim>\<open>render\<close> runs the composer.  The claim asks for no direct submission.
\<close>

theorem gltf_frame_submits_directly:
  "submissions (renderer (GLTFExample_render (GLTFExample_update now s)))
     = submissions (renderer s) @ [DirectRender (scene s) (cam s), ComposerRender]"
  by (simp add: GLTFExample_render_def GLTFExample_update_def EffectComposer_render_def
      render_direct_def WebGLRenderer_render_def mixer_advance_def split: option.split)

lemma gltf_step_without_mixer:
  assumes "mixer s = None"
  shows "mixer (gltf_step c s) = None \<and> mixer_log (gltf_step c s) = mixer_log s
       \<and> heap (gltf_step c s) = heap s \<and> scene (gltf_step c s) = scene s
       \<and> model_load (gltf_step c s) = model_load s"
  using assms
  by (cases c)
    (simp_all add: GLTFExample_render_def GLTFExample_update_def EffectComposer_render_def
      render_direct_def mixer_advance_def)

lemma gltf_run_without_mixer:
  assumes "mixer s = None"
  shows "mixer (gltf_run cs s) = None \<and> mixer_log (gltf_run cs s) = mixer_log s
       \<and> heap (gltf_run cs s) = heap s \<and> scene (gltf_run cs s) = scene s
       \<and> model_load (gltf_run cs s) = model_load s"
  using assms
proof (induction cs arbitrary: s)
  case Nil
  then show ?case by (simp add: gltf_run_def)
next
  case (Cons c cs)
  have unroll: "gltf_run (c # cs) s = gltf_run cs (gltf_step c s)"
    by (simp add: gltf_run_def)
  from gltf_step_without_mixer [OF Cons.prems, of c] Cons.IH [of "gltf_step c s"]
  show ?case unfolding unroll by simp
qed

text \<open>
  C6.  While the model load is pending (its callback has not run), any sequence of
  \<^verbatim>\<open>update\<close> and \<^verbatim>\<open>render\<close> calls after \<^verbatim>\<open>initialize\<close> leaves the mixer undefined, never
  calls \<^verbatim>\<open>AnimationMixer.update\<close>, and leaves the object store, hence the content of the
  scene, as \<^verbatim>\<open>initialize\<close> left it: the two lights under the root.  Both methods are total:
  the source has no raising path in them, the optional call being the \<open>None\<close> case.
\<close>

theorem gltf_frames_while_loading:
  "let s0 = GLTFExample_initialize (GLTFExample_constructor r w h);
       s = gltf_run cs s0
   in model_load s = Pending \<and> mixer s = None \<and> mixer_log s = []
    \<and> heap s = heap s0 \<and> scene s = scene s0 \<and> scene_children s = [2, 3]"
proof -
  let ?s0 = "GLTFExample_initialize (GLTFExample_constructor r w h)"
  have "mixer ?s0 = None"
    by (simp add: gltf_initialized)
  from gltf_run_without_mixer [OF this, of cs]
  show ?thesis
    by (simp add: Let_def scene_children_def children_of_def gltf_initialized)
qed

theorem gltf_frames_while_loading_witness:
  "let s0 = GLTFExample_initialize (GLTFExample_constructor renderer0 1024 768);
       s = gltf_run [GLTF_update 0, GLTF_render, GLTF_update 16, GLTF_render] s0
   in model_load s = Pending \<and> mixer s = None \<and> mixer_log s = []
    \<and> heap s = heap s0 \<and> scene s = scene s0 \<and> scene_children s = [2, 3]"
  using gltf_frames_while_loading
    [of renderer0 1024 768 "[GLTF_update 0, GLTF_render, GLTF_update 16, GLTF_render]"]
  by simp

text \<open>
  C8.  \<^verbatim>\<open>resize(800, 600)\<close> right after the constructor, before \<^verbatim>\<open>initialize\<close>: the method
  is total, and since the constructor already built the composer and the depth-of-field
  pass, both get the new size, as does the surface; the object store is untouched.  In a
  state where the field \<^verbatim>\<open>_bokeh\<close> is undefined the step on it is skipped.
\<close>

theorem gltf_resize_before_initialize:
  "(let s = GLTFExample_resize 800 600 (GLTFExample_constructor r w h)
    in surface (renderer s) = (800, 600)
     \<and> map_option renderTargetDepth (bokeh s) = Some (800, 600)
     \<and> composer_size (composer s) = (800, 600)
     \<and> heap s = heap (GLTFExample_constructor r w h)
     \<and> model_load s = NotStarted)
   \<and> (bokeh g = None \<longrightarrow>
        GLTFExample_resize 800 600 g =
          g\<lparr>renderer := (renderer g)\<lparr>surface := (800, 600)\<rparr>,
            composer := (composer g)\<lparr>composer_size := (800, 600)\<rparr>\<rparr>)"
  unfolding gltf_constructed
  by (simp add: GLTFExample_resize_def EffectComposer_setSize_def Let_def lib_defs
      cong: prod.case_cong_weak)

theorem gltf_resize_before_initialize_witness:
  "bokeh ((GLTFExample_constructor renderer0 1024 768)\<lparr>bokeh := None\<rparr>) = None
   \<and> bokeh (GLTFExample_resize 800 600
        ((GLTFExample_constructor renderer0 1024 768)\<lparr>bokeh := None\<rparr>)) = None
   \<and> composer_size (composer (GLTFExample_resize 800 600
        ((GLTFExample_constructor renderer0 1024 768)\<lparr>bokeh := None\<rparr>))) = (800, 600)"
  using gltf_resize_before_initialize
    [of renderer0 1024 768 "(GLTFExample_constructor renderer0 1024 768)\<lparr>bokeh := None\<rparr>"]
  by simp


section \<open>Linking a loaded subgraph leaves the objects in the store alone\<close>

lemma Object3D_add_fresh:
  assumes "r < length g" "rc < length g" "rc \<noteq> r" "parent (g ! rc) = None"
  shows "Object3D_add r rc g =
           (g[rc := (g ! rc)\<lparr>parent := Some r\<rparr>])
              [r := (g ! r)\<lparr>children := children (g ! r) @ [rc]\<rparr>]"
  using assms by (simp add: Object3D_add_def parent_of_def modify_def)

lemma link_fold_frame:
  assumes ih: "\<And>c g. c \<in> set cs \<Longrightarrow>
      fst (link_asset c g) = length g \<and> length g < length (snd (link_asset c g))
      \<and> take (length g) (snd (link_asset c g)) = g
      \<and> parent (snd (link_asset c g) ! length g) = None"
    and g: "r < length g" "take r g = h" "parent (g ! r) = None"
  shows "r < length (fold (\<lambda>c h'. case link_asset c h' of (rc, h'') \<Rightarrow> Object3D_add r rc h'') cs g)
       \<and> take r (fold (\<lambda>c h'. case link_asset c h' of (rc, h'') \<Rightarrow> Object3D_add r rc h'') cs g) = h
       \<and> parent (fold (\<lambda>c h'. case link_asset c h' of (rc, h'') \<Rightarrow> Object3D_add r rc h'') cs g ! r)
           = None"
  using ih g
proof (induction cs arbitrary: g)
  case Nil
  then show ?case by simp
next
  case (Cons c cs)
  define g' where "g' = snd (link_asset c g)"
  from Cons.prems(1) [of c g]
  have l: "link_asset c g = (length g, g')" and len: "length g < length g'"
    and tk: "take (length g) g' = g" and par: "parent (g' ! length g) = None"
    by (simp_all add: g'_def prod_eq_iff)
  have same: "g' ! r = g ! r"
    using tk Cons.prems(2) by (metis nth_take)
  let ?g'' = "Object3D_add r (length g) g'"
  have add: "?g'' = (g'[length g := (g' ! length g)\<lparr>parent := Some r\<rparr>])
              [r := (g' ! r)\<lparr>children := children (g' ! r) @ [length g]\<rparr>]"
    using Cons.prems(2) len par by (intro Object3D_add_fresh) simp_all
  have 1: "r < length ?g''"
    using Cons.prems(2) len by (simp add: add)
  have "take r ?g'' = take r g'"
    using Cons.prems(2) by (simp add: add)
  also have "\<dots> = take r (take (length g) g')"
    using Cons.prems(2) by (simp add: min_def)
  also have "\<dots> = h"
    using tk Cons.prems(3) by simp
  finally have 2: "take r ?g'' = h" .
  have 3: "parent (?g'' ! r) = None"
    using Cons.prems(2,4) len same by (simp add: add)
  have "\<And>c g. c \<in> set cs \<Longrightarrow>
      fst (link_asset c g) = length g \<and> length g < length (snd (link_asset c g))
      \<and> take (length g) (snd (link_asset c g)) = g
      \<and> parent (snd (link_asset c g) ! length g) = None"
    using Cons.prems(1) by simp
  from Cons.IH [OF this 1 2 3] show ?case
    by (simp add: l)
qed

lemma link_asset_frame:
  "fst (link_asset a h) = length h \<and> length h < length (snd (link_asset a h))
   \<and> take (length h) (snd (link_asset a h)) = h
   \<and> parent (snd (link_asset a h) ! length h) = None"
proof (induction a arbitrary: h)
  case (Asset obj cs)
  have "length h < length (h @ [obj\<lparr>parent := None, children := []\<rparr>])"
       "take (length h) (h @ [obj\<lparr>parent := None, children := []\<rparr>]) = h"
       "parent ((h @ [obj\<lparr>parent := None, children := []\<rparr>]) ! length h) = None"
    by simp_all
  from link_fold_frame [where cs = cs and r = "length h" and h = h, OF Asset.IH this]
  show ?case by simp
qed

text \<open>
  Adding a freshly linked subgraph to the scene root appends its reference to the children
  of the root.
\<close>

lemma scene_add_linked:
  assumes "scene s < length (heap s)"
  shows "scene_children (run (do { root \<leftarrow> link a; exec (scene_add root) }) s)
           = scene_children s @ [length (heap s)]"
proof -
  let ?h = "heap s" and ?h' = "snd (link_asset a (heap s))"
  note f = link_asset_frame [of a ?h]
  have same: "?h' ! scene s = ?h ! scene s"
    using f assms by (metis nth_take)
  have "Object3D_add (scene s) (length ?h) ?h' =
      (?h'[length ?h := (?h' ! length ?h)\<lparr>parent := Some (scene s)\<rparr>])
        [scene s := (?h' ! scene s)\<lparr>children := children (?h' ! scene s) @ [length ?h]\<rparr>]"
    using f assms by (intro Object3D_add_fresh) simp_all
  then show ?thesis
    using f assms same
    by (simp add: run_def link_def scene_add_def add_def scene_children_def children_of_def
        State_Monad.update_def)
qed


section \<open>\<^verbatim>\<open>TextureExample\<close>: disposal, update, the barrier of the loads\<close>

lemma texture_initialized:
  "TextureExample_initialize (TextureExample_constructor r) =
   \<lparr>heap =
      [\<lparr>kind = SceneK, parent = None, children = [2, 3], geometry = None,
        material = [], rotZ = 0, castShadow = False\<rparr>,
       \<lparr>kind = CameraK, parent = None, children = [], geometry = None,
        material = [], rotZ = 0, castShadow = False\<rparr>,
       \<lparr>kind = LightK, parent = Some 0, children = [], geometry = None,
        material = [], rotZ = 0, castShadow = True\<rparr>,
       \<lparr>kind = MeshK, parent = Some 0, children = [],
        geometry = Some (Geometry 1), material = [Material 2], rotZ = 0,
        castShadow = False\<rparr>],
    created = [Material 0, Geometry 1, Material 2], disposed = [],
    scene = 0, cam = 1, renderer = r\<lparr>shadowMapEnabled := True\<rparr>, gui = [],
    loadManager = \<lparr>itemsLoaded = 0, itemsTotal = 4, isLoading = True, onLoad = True\<rparr>,
    textures = [Pending, Pending, Pending, Pending],
    composed = Some (Material 0), obj_load = NotStarted, hdr_load = Pending,
    environment = False, background = True\<rparr>"
  by (simp add: TextureExample_initialize_def TextureExample_constructor_def
      TextureLoader_load_def LoadingManager_itemStart_def new_LoadingManager_def lib_defs
      cong: prod.case_cong_weak)

text \<open>
  C1.  \<^verbatim>\<open>TextureExample.initialize\<close> creates the composed material, the geometry of the
  plane and the shadow material; \<^verbatim>\<open>destroy\<close>, whose body after the call of the base method is
  \<^verbatim>\<open>// @todo\<close>, disposes none of them.
\<close>

theorem texture_destroy_disposes_nothing:
  "created (TextureExample_destroy (TextureExample_initialize (TextureExample_constructor r)))
     = [Material 0, Geometry 1, Material 2]
   \<and> disposed (TextureExample_destroy (TextureExample_initialize (TextureExample_constructor r)))
     = []
   \<and> dispose_count
        (TextureExample_destroy (TextureExample_initialize (TextureExample_constructor r)))
        (Geometry 1) = 0"
  by (simp add: texture_initialized TextureExample_destroy_def Example_destroy_def
      dispose_count_def)

text \<open>
  C2.  After \<^verbatim>\<open>initialize\<close> and \<^verbatim>\<open>destroy\<close> of \<^verbatim>\<open>TextureExample\<close> the scene root still has
  its two children, the directional light and the plane.
\<close>

theorem texture_destroy_keeps_children:
  "scene_children
     (TextureExample_destroy (TextureExample_initialize (TextureExample_constructor r)))
   = [2, 3]"
  by (simp add: texture_initialized TextureExample_destroy_def Example_destroy_def
      scene_children_def children_of_def)

text \<open>
  C10.  \<^verbatim>\<open>TextureExample.update\<close> has an empty body: in every state it returns the state it
  was given, so it changes no field, reads no tunable and submits nothing.
\<close>

theorem texture_update_noop:
  "TextureExample_update s = s
   \<and> submissions (renderer (TextureExample_update s)) = submissions (renderer s)"
  by (simp add: TextureExample_update_def)

lemma filter_count_update:
  "i < length xs \<Longrightarrow> \<not> P (xs ! i) \<Longrightarrow> P y \<Longrightarrow>
   length (filter P (xs[i := y])) = Suc (length (filter P xs))"
proof (induction xs arbitrary: i)
  case Nil
  then show ?case by simp
next
  case (Cons x xs)
  then show ?case by (cases i) simp_all
qed

lemma filter_count_all:
  "length (filter P xs) = length xs \<Longrightarrow> x \<in> set xs \<Longrightarrow> P x"
  using length_filter_less [of x xs P] by auto

lemma onObjLoad_frame:
  "textures (TextureExample_onObjLoad obj s) = textures s
   \<and> loadManager (TextureExample_onObjLoad obj s) = loadManager s
   \<and> obj_load (TextureExample_onObjLoad obj s) = obj_load s
   \<and> composed (TextureExample_onObjLoad obj s) = composed s"
  by (simp add: TextureExample_onObjLoad_def run_def link_def scene_add_def add_def
      State_Monad.update_def split: option.split)

lemma texture_step_inv:
  assumes "length (textures s) = 4" "itemsTotal (loadManager s) = 4"
    and "itemsLoaded (loadManager s) = length (filter (\<lambda>l. \<not> pending l) (textures s))"
    and "obj_load s \<noteq> NotStarted \<longrightarrow> (\<forall>l \<in> set (textures s). \<not> pending l)"
    and "obj_load s \<noteq> Completed \<longrightarrow> heap s = H"
    and "composed s = Some m"
  shows "length (textures (texture_step ev s)) = 4
       \<and> itemsTotal (loadManager (texture_step ev s)) = 4
       \<and> itemsLoaded (loadManager (texture_step ev s))
           = length (filter (\<lambda>l. \<not> pending l) (textures (texture_step ev s)))
       \<and> (obj_load (texture_step ev s) \<noteq> NotStarted \<longrightarrow>
            (\<forall>l \<in> set (textures (texture_step ev s)). \<not> pending l))
       \<and> (obj_load (texture_step ev s) \<noteq> Completed \<longrightarrow> heap (texture_step ev s) = H)
       \<and> composed (texture_step ev s) = Some m"
proof -
  have ended: "length (textures (texture_ended i outcome s)) = 4
       \<and> itemsTotal (loadManager (texture_ended i outcome s)) = 4
       \<and> itemsLoaded (loadManager (texture_ended i outcome s))
           = length (filter (\<lambda>l. \<not> pending l) (textures (texture_ended i outcome s)))
       \<and> (obj_load (texture_ended i outcome s) \<noteq> NotStarted \<longrightarrow>
            (\<forall>l \<in> set (textures (texture_ended i outcome s)). \<not> pending l))
       \<and> (obj_load (texture_ended i outcome s) \<noteq> Completed \<longrightarrow>
            heap (texture_ended i outcome s) = H)
       \<and> composed (texture_ended i outcome s) = Some m"
    if out: "\<not> pending outcome" for i outcome
  proof (cases "i < length (textures s) \<and> textures s ! i = Pending")
    case False
    then have "texture_ended i outcome s = s"
      by (simp only: texture_ended_def if_False)
    then show ?thesis using assms by simp
  next
    case True
    then have "pending (textures s ! i)" "textures s ! i \<in> set (textures s)"
      by (simp_all add: pending_def del: nth_mem) (metis nth_mem)
    with assms(4) have ns: "obj_load s = NotStarted" by blast
    have cnt: "length (filter (\<lambda>l. \<not> pending l) ((textures s)[i := outcome]))
        = Suc (itemsLoaded (loadManager s))"
      using True out assms(3) by (simp add: filter_count_update pending_def)
    have len: "length ((textures s)[i := outcome]) = 4"
      using assms(1) by simp
    show ?thesis
    proof (cases "Suc (itemsLoaded (loadManager s)) = itemsTotal (loadManager s)")
      case last: True
      have "length (filter (\<lambda>l. \<not> pending l) ((textures s)[i := outcome]))
          = length ((textures s)[i := outcome])"
        using cnt last assms(2) len by simp
      then have full: "\<forall>l \<in> set ((textures s)[i := outcome]). \<not> pending l"
        using filter_count_all [of "\<lambda>l. \<not> pending l" "(textures s)[i := outcome]"] by blast
      have e: "texture_ended i outcome s =
          (if onLoad (loadManager s) then manager_onLoad else id)
            (s\<lparr>textures := (textures s)[i := outcome],
               loadManager := (loadManager s)\<lparr>itemsLoaded := Suc (itemsLoaded (loadManager s)),
                 isLoading := False\<rparr>\<rparr>)"
        using True last by (simp add: texture_ended_def LoadingManager_itemEnd_def)
      show ?thesis
        unfolding e using full cnt len assms(2,5,6) ns
        by (simp add: manager_onLoad_def)
    next
      case more: False
      have e: "texture_ended i outcome s =
            s\<lparr>textures := (textures s)[i := outcome],
               loadManager := (loadManager s)\<lparr>itemsLoaded := Suc (itemsLoaded (loadManager s))\<rparr>\<rparr>"
        using True more by (simp add: texture_ended_def LoadingManager_itemEnd_def)
      show ?thesis
        unfolding e using cnt len assms(2,5,6) ns by simp
    qed
  qed
  show ?thesis
  proof (cases ev)
    case (TextureLoaded i)
    then show ?thesis using ended [of Completed i] by (simp add: pending_def)
  next
    case (TextureError i)
    then show ?thesis using ended [of Failed i] by (simp add: pending_def)
  next
    case (ObjLoaded obj)
    then show ?thesis using assms by (simp add: onObjLoad_frame)
  next
    case ObjError
    then show ?thesis using assms by simp
  next
    case HdrLoaded
    then show ?thesis using assms by simp
  next
    case CallUpdate
    then show ?thesis using assms by (simp add: TextureExample_update_def)
  next
    case CallRender
    then show ?thesis using assms by (simp add: Example_render_def)
  next
    case CallDestroy
    then show ?thesis using assms by (simp add: TextureExample_destroy_def Example_destroy_def)
  next
    case (CallResize w h)
    then show ?thesis using assms by (simp add: Example_resize_def)
  qed
qed

lemma texture_run_inv:
  assumes "length (textures s) = 4" "itemsTotal (loadManager s) = 4"
    and "itemsLoaded (loadManager s) = length (filter (\<lambda>l. \<not> pending l) (textures s))"
    and "obj_load s \<noteq> NotStarted \<longrightarrow> (\<forall>l \<in> set (textures s). \<not> pending l)"
    and "obj_load s \<noteq> Completed \<longrightarrow> heap s = H"
    and "composed s = Some m"
  shows "length (textures (texture_run evs s)) = 4
       \<and> (obj_load (texture_run evs s) \<noteq> NotStarted \<longrightarrow>
            (\<forall>l \<in> set (textures (texture_run evs s)). \<not> pending l))
       \<and> (obj_load (texture_run evs s) \<noteq> Completed \<longrightarrow> heap (texture_run evs s) = H)
       \<and> composed (texture_run evs s) = Some m"
  using assms
proof (induction evs arbitrary: s)
  case Nil
  then show ?case by (simp add: texture_run_def)
next
  case (Cons ev evs)
  have unroll: "texture_run (ev # evs) s = texture_run evs (texture_step ev s)"
    by (simp add: texture_run_def)
  note st = texture_step_inv [OF Cons.prems, of ev]
  show ?case
    unfolding unroll using st by (intro Cons.IH) simp_all
qed

text \<open>
  C5.  In every state that \<^verbatim>\<open>TextureExample\<close> reaches after \<^verbatim>\<open>initialize\<close>, by method calls
  and by completions of its loads in any order, if some mesh carries the composed material
  then none of the four texture loads is pending and the model load has completed.  A
  texture load that ends with an error counts as ended: the loading manager counts it.
\<close>

theorem texture_material_barrier:
  "let s = texture_run evs (TextureExample_initialize (TextureExample_constructor r))
   in material_applied s \<longrightarrow>
        length (textures s) = 4 \<and> (\<forall>l \<in> set (textures s). \<not> pending l)
        \<and> obj_load s = Completed"
proof -
  let ?i = "TextureExample_initialize (TextureExample_constructor r)"
  have "length (textures ?i) = 4" "itemsTotal (loadManager ?i) = 4"
    "itemsLoaded (loadManager ?i) = length (filter (\<lambda>l. \<not> pending l) (textures ?i))"
    "obj_load ?i \<noteq> NotStarted \<longrightarrow> (\<forall>l \<in> set (textures ?i). \<not> pending l)"
    "obj_load ?i \<noteq> Completed \<longrightarrow> heap ?i = heap ?i"
    "composed ?i = Some (Material 0)"
    by (simp_all add: texture_initialized pending_def)
  note inv = texture_run_inv [OF this, of evs]
  have not_yet: "\<not> material_applied (texture_run evs ?i)"
    if "obj_load (texture_run evs ?i) \<noteq> Completed"
    using that inv by (simp add: material_applied_def texture_initialized isMesh_def)
  show ?thesis
    unfolding Let_def using inv not_yet by auto
qed

theorem texture_material_barrier_witness:
  "material_applied (texture_run
      [TextureLoaded 0, TextureError 2, HdrLoaded, TextureLoaded 1, CallUpdate, TextureLoaded 3,
       ObjLoaded (Asset (new_Object3D GroupK None [])
         [Asset (new_Object3D MeshK (Some (AssetGeometry 0)) [AssetMaterial 0]) []])]
      (TextureExample_initialize (TextureExample_constructor renderer0)))
   \<and> obj_load (texture_run
      [TextureLoaded 0, TextureError 2, HdrLoaded, TextureLoaded 1, CallUpdate, TextureLoaded 3,
       ObjLoaded (Asset (new_Object3D GroupK None [])
         [Asset (new_Object3D MeshK (Some (AssetGeometry 0)) [AssetMaterial 0]) []])]
      (TextureExample_initialize (TextureExample_constructor renderer0))) = Completed"
proof -
  let ?evs = "[TextureLoaded 0, TextureError 2, HdrLoaded, TextureLoaded 1, CallUpdate,
       TextureLoaded 3,
       ObjLoaded (Asset (new_Object3D GroupK None [])
         [Asset (new_Object3D MeshK (Some (AssetGeometry 0)) [AssetMaterial 0]) []])]"
  have "material_applied (texture_run ?evs
      (TextureExample_initialize (TextureExample_constructor renderer0)))"
    unfolding texture_initialized
    by (simp add: texture_run_def texture_ended_def LoadingManager_itemEnd_def
        manager_onLoad_def TextureExample_onObjLoad_def TextureExample_update_def
        apply_material_def isMesh_def material_applied_def lib_defs
        cong: prod.case_cong_weak)
  with texture_material_barrier [of ?evs renderer0]
  show ?thesis by (simp add: Let_def)
qed


section \<open>\<^verbatim>\<open>destroy\<close> and the completions that come after it\<close>

lemma gltf_destroyed:
  "GLTFExample_destroy (GLTFExample_initialize (GLTFExample_constructor r w h)) =
   Inr \<lparr>heap =
      [\<lparr>kind = SceneK, parent = None, children = [], geometry = None,
        material = [], rotZ = 0, castShadow = False\<rparr>,
       \<lparr>kind = CameraK, parent = None, children = [], geometry = None,
        material = [], rotZ = 0, castShadow = False\<rparr>,
       \<lparr>kind = LightK, parent = None, children = [], geometry = None,
        material = [], rotZ = 0, castShadow = False\<rparr>,
       \<lparr>kind = LightK, parent = None, children = [], geometry = None,
        material = [], rotZ = 0, castShadow = False\<rparr>],
    created = [], disposed = [], scene = 0, cam = 1, renderer = r,
    gui =
      [(''Light'', ''Intensity''), (''Light'', ''Color''),
       (''FieldOfDepth'', ''Focus''), (''FieldOfDepth'', ''Aperture''),
       (''FieldOfDepth'', ''Maxblur''), (''NeonEffect'', ''Strength''),
       (''NeonEffect'', ''Threshold''), (''NeonEffect'', ''Radius'')],
    clock = \<lparr>autoStart = True, startTime = 0, oldTime = 0, elapsedTime = 0,
      running = False\<rparr>,
    mixer = None,
    composer =
      \<lparr>passes =
         [RenderPass 0 1, BokehPassOf_bokeh,
          UnrealBloom \<lparr>resolution = (w, h), strength = 2 / 5, radius = 2 / 5,
            threshold = 4 / 5\<rparr>],
       composer_size = (w, h)\<rparr>,
    bokeh = Some \<lparr>renderTargetDepth = (w, h), focus = 1, aperture = 3 / 2, maxblur = 0\<rparr>,
    lights = [2, 3], mixer_log = [], model_load = Pending\<rparr>"
  unfolding gltf_initialized
  by (simp add: GLTFExample_destroy_def dispose_mesh_def isMesh_def lib_defs)

text \<open>
  The scene root of \<^verbatim>\<open>GLTFExample\<close> has no child after \<^verbatim>\<open>initialize\<close> and \<^verbatim>\<open>destroy\<close>.
\<close>

lemma gltf_destroy_clears_scene:
  "map_sum id scene_children
     (GLTFExample_destroy (GLTFExample_initialize (GLTFExample_constructor r w h))) = Inr []"
  unfolding gltf_destroyed by (simp add: scene_children_def children_of_def)

text \<open>
  C7.  The claim asks for a completion that arrives after \<^verbatim>\<open>destroy\<close> to change nothing.
  With a model of one mesh and one animation clip, the scene root of the destroyed
  \<^verbatim>\<open>GLTFExample\<close> has no child before the completion and one child after it.
\<close>

theorem late_completion_counterexample:
  "map_sum id scene_children
     (GLTFExample_destroy (GLTFExample_initialize (GLTFExample_constructor renderer0 1024 768)))
     = Inr []
   \<and> map_sum id scene_children
     (gltf_destroy_then_load
        \<lparr>gltf_scene = Asset (new_Object3D GroupK None [])
           [Asset (new_Object3D MeshK (Some (AssetGeometry 0)) [AssetMaterial 0]) []],
         animations = [0]\<rparr>
        (GLTFExample_initialize (GLTFExample_constructor renderer0 1024 768)))
     = Inr [4]"
  unfolding gltf_destroy_then_load_def gltf_destroyed
  by (simp add: gltf_loaded_def GLTFExample_onLoad_def scene_children_def lib_defs
      cong: prod.case_cong_weak)

lemma late_completion_parts:
  assumes "animations elm = clip # clips"
  shows "case gltf_destroy_then_load elm
                (GLTFExample_initialize (GLTFExample_constructor r w h)) of
           Inl e \<Rightarrow> False
         | Inr s \<Rightarrow> scene_children s = [4] \<and> model_load s = Completed
             \<and> mixer s = Some \<lparr>mixer_root = 4, mixer_time = 0, mixer_playing = [clip]\<rparr>"
    and "scene_children (texture_run
           [TextureLoaded 0, TextureLoaded 1, TextureLoaded 2, TextureLoaded 3, CallDestroy,
            ObjLoaded obj]
           (TextureExample_initialize (TextureExample_constructor r))) = [2, 3, 4]"
    and "obj_load (texture_run
           [CallDestroy, TextureLoaded 0, TextureLoaded 1, TextureLoaded 2, TextureLoaded 3]
           (TextureExample_initialize (TextureExample_constructor r))) = Pending"
proof -
  let ?d = "\<lparr>heap =
      [\<lparr>kind = SceneK, parent = None, children = [], geometry = None,
        material = [], rotZ = 0, castShadow = False\<rparr>,
       \<lparr>kind = CameraK, parent = None, children = [], geometry = None,
        material = [], rotZ = 0, castShadow = False\<rparr>,
       \<lparr>kind = LightK, parent = None, children = [], geometry = None,
        material = [], rotZ = 0, castShadow = False\<rparr>,
       \<lparr>kind = LightK, parent = None, children = [], geometry = None,
        material = [], rotZ = 0, castShadow = False\<rparr>],
    created = [], disposed = [], scene = 0, cam = 1, renderer = r,
    gui =
      [(''Light'', ''Intensity''), (''Light'', ''Color''),
       (''FieldOfDepth'', ''Focus''), (''FieldOfDepth'', ''Aperture''),
       (''FieldOfDepth'', ''Maxblur''), (''NeonEffect'', ''Strength''),
       (''NeonEffect'', ''Threshold''), (''NeonEffect'', ''Radius'')],
    clock = \<lparr>autoStart = True, startTime = 0, oldTime = 0, elapsedTime = 0,
      running = False\<rparr>,
    mixer = None,
    composer =
      \<lparr>passes =
         [RenderPass 0 1, BokehPassOf_bokeh,
          UnrealBloom \<lparr>resolution = (w, h), strength = 2 / 5, radius = 2 / 5,
            threshold = 4 / 5\<rparr>],
       composer_size = (w, h)\<rparr>,
    bokeh = Some \<lparr>renderTargetDepth = (w, h), focus = 1, aperture = 3 / 2, maxblur = 0\<rparr>,
    lights = [2, 3], mixer_log = [], model_load = Completed\<rparr> :: GLTFExample"
  let ?m = "\<lparr>mixer_root = 4, mixer_time = 0, mixer_playing = [clip]\<rparr>"
  have load: "gltf_destroy_then_load elm
      (GLTFExample_initialize (GLTFExample_constructor r w h)) =
      Inr (run (do {
          root \<leftarrow> link (gltf_scene elm);
          exec (\<lambda>s. s\<lparr>mixer :=
            Some \<lparr>mixer_root = root, mixer_time = 0, mixer_playing = [clip]\<rparr>\<rparr>);
          exec (scene_add root)
        }) ?d)"
    unfolding gltf_destroy_then_load_def gltf_destroyed
    by (simp add: gltf_loaded_def GLTFExample_onLoad_def assms)
  let ?s = "run (do {
          root \<leftarrow> link (gltf_scene elm);
          exec (\<lambda>s. s\<lparr>mixer :=
            Some \<lparr>mixer_root = root, mixer_time = 0, mixer_playing = [clip]\<rparr>\<rparr>);
          exec (scene_add root)
        }) ?d"
  have ch: "scene_children ?s
      = scene_children (run (do { root \<leftarrow> link (gltf_scene elm); exec (scene_add root) }) ?d)"
    by (simp add: run_def link_def scene_add_def add_def scene_children_def
        State_Monad.update_def)
  have "scene_children ?s = [4]"
    unfolding ch by (subst scene_add_linked) (simp_all add: scene_children_def children_of_def)
  moreover have "model_load ?s = Completed" "mixer ?s = Some ?m"
    using link_asset_frame [of "gltf_scene elm" "heap ?d"]
    by (simp_all add: run_def link_def scene_add_def add_def State_Monad.update_def)
  ultimately show "case gltf_destroy_then_load elm
                (GLTFExample_initialize (GLTFExample_constructor r w h)) of
           Inl e \<Rightarrow> False
         | Inr s \<Rightarrow> scene_children s = [4] \<and> model_load s = Completed
             \<and> mixer s = Some \<lparr>mixer_root = 4, mixer_time = 0, mixer_playing = [clip]\<rparr>"
    unfolding load by simp
next
  let ?p = "TextureExample_initialize (TextureExample_constructor r)
      \<lparr>loadManager := \<lparr>itemsLoaded = Suc (Suc (Suc (Suc 0))), itemsTotal = 4, isLoading = False,
         onLoad = True\<rparr>,
       textures := [Completed, Completed, Completed, Completed],
       obj_load := Completed\<rparr>"
  have "texture_run
           [TextureLoaded 0, TextureLoaded 1, TextureLoaded 2, TextureLoaded 3, CallDestroy,
            ObjLoaded obj]
           (TextureExample_initialize (TextureExample_constructor r))
        = run (do { root \<leftarrow> link (asset_traverse (apply_material (Material 0)) obj);
                    exec (scene_add root) }) ?p"
    unfolding texture_initialized
    by (simp add: texture_run_def texture_ended_def LoadingManager_itemEnd_def
        manager_onLoad_def TextureExample_onObjLoad_def TextureExample_destroy_def
        Example_destroy_def)
  moreover have "scene_children
        (run (do { root \<leftarrow> link (asset_traverse (apply_material (Material 0)) obj);
                   exec (scene_add root) }) ?p)
      = scene_children ?p @ [length (heap ?p)]"
    by (rule scene_add_linked) (simp add: texture_initialized)
  ultimately show "scene_children (texture_run
           [TextureLoaded 0, TextureLoaded 1, TextureLoaded 2, TextureLoaded 3, CallDestroy,
            ObjLoaded obj]
           (TextureExample_initialize (TextureExample_constructor r))) = [2, 3, 4]"
    by (simp add: texture_initialized scene_children_def children_of_def)
next
  show "obj_load (texture_run
           [CallDestroy, TextureLoaded 0, TextureLoaded 1, TextureLoaded 2, TextureLoaded 3]
           (TextureExample_initialize (TextureExample_constructor r))) = Pending"
    unfolding texture_initialized
    by (simp add: texture_run_def texture_ended_def LoadingManager_itemEnd_def
        manager_onLoad_def TextureExample_destroy_def Example_destroy_def)
qed


text \<open>
  C7, as the code has it.  No completion callback looks at whether the example was
  destroyed.  When \<^verbatim>\<open>GLTFExample.destroy\<close> has run while the model load was pending and
  the model then arrives with at least one animation clip, the callback creates the mixer on
  the model, starts the first clip and adds the model to the emptied scene root, which then
  has exactly this one child.  When \<^verbatim>\<open>TextureExample.destroy\<close> has run while the model
  load was pending, the callback of the model adds the model to the scene root all the
  same; and texture completions that arrive after \<^verbatim>\<open>destroy\<close> still begin the model load.
\<close>

theorem late_completion_unguarded:
  "animations elm = clip # clips \<Longrightarrow>
   (case gltf_destroy_then_load elm
           (GLTFExample_initialize (GLTFExample_constructor r w h)) of
      Inl e \<Rightarrow> False
    | Inr s \<Rightarrow> scene_children s = [4] \<and> model_load s = Completed
        \<and> mixer s = Some \<lparr>mixer_root = 4, mixer_time = 0, mixer_playing = [clip]\<rparr>)
   \<and> scene_children (texture_run
        [TextureLoaded 0, TextureLoaded 1, TextureLoaded 2, TextureLoaded 3, CallDestroy,
         ObjLoaded obj]
        (TextureExample_initialize (TextureExample_constructor r'))) = [2, 3, 4]
   \<and> obj_load (texture_run
        [CallDestroy, TextureLoaded 0, TextureLoaded 1, TextureLoaded 2, TextureLoaded 3]
        (TextureExample_initialize (TextureExample_constructor r'))) = Pending"
  using late_completion_parts(1) [of elm clip clips r w h]
    late_completion_parts(2) [of elm clip clips obj r']
    late_completion_parts(3) [of elm clip clips r']
  by simp

theorem late_completion_unguarded_witness:
  "animations \<lparr>gltf_scene = Asset (new_Object3D GroupK None [])
        [Asset (new_Object3D MeshK (Some (AssetGeometry 0)) [AssetMaterial 0]) []],
      animations = [7, 8]\<rparr> = 7 # [8]
   \<and> map_sum id mixer
        (gltf_destroy_then_load
          \<lparr>gltf_scene = Asset (new_Object3D GroupK None [])
             [Asset (new_Object3D MeshK (Some (AssetGeometry 0)) [AssetMaterial 0]) []],
           animations = [7, 8]\<rparr>
          (GLTFExample_initialize (GLTFExample_constructor renderer0 1024 768)))
     = Inr (Some \<lparr>mixer_root = 4, mixer_time = 0, mixer_playing = [7]\<rparr>)
   \<and> scene_children (texture_run
        [TextureLoaded 0, TextureLoaded 1, TextureLoaded 2, TextureLoaded 3, CallDestroy,
         ObjLoaded (Asset (new_Object3D MeshK (Some (AssetGeometry 0)) [AssetMaterial 0]) [])]
        (TextureExample_initialize (TextureExample_constructor renderer0))) = [2, 3, 4]"
  using late_completion_unguarded
    [of "\<lparr>gltf_scene = Asset (new_Object3D GroupK None [])
             [Asset (new_Object3D MeshK (Some (AssetGeometry 0)) [AssetMaterial 0]) []],
           animations = [7, 8]\<rparr>" 7 "[8]" renderer0 1024 768
        "Asset (new_Object3D MeshK (Some (AssetGeometry 0)) [AssetMaterial 0]) []" renderer0]
  by (auto split: sum.splits)

end
